theory Spec2Isabelle
  imports Main
begin

section \<open>The graph synchronisation server (topology/graph/server.go)\<close>

text \<open>
  The file embeds the codec \<open>UnmarshalWSMessage\<close>, the dispatcher
  \<open>GraphServer.OnMessage\<close> and the six relay callbacks of \<open>server.go\<close>.
  The Graph, the Node and Edge decoders, the JSON library, the logger and the
  websocket server are collaborators whose code is not part of \<open>server.go\<close>;
  the embedding takes them as parameters (record \<open>Collaborators\<close>).
\<close>

subsection \<open>Data\<close>

type_synonym Identifier = string
type_synonym Metadata = "(string \<times> string) list"
type_synonym RawMessage = string
type_synonym error = string
type_synonym WSClient = nat

text \<open>
  Modelled from the spec: the declarations of \<open>Node\<close> and \<open>Edge\<close> are in graph.go,
  which is missing. \<open>server.go\<close> reads the fields \<open>ID\<close> and \<open>metadata\<close> of both;
  the spec gives an edge two node identities as endpoints. The metadata is a mapping from
  keys to values that the server only passes on; it is kept as an association list
  with string values.
\<close>

record Node =
  ID :: Identifier
  metadata :: Metadata

record Edge =
  ID :: Identifier
  metadata :: Metadata
  parent :: Identifier
  child :: Identifier

text \<open>
  \<open>shttp.WSMessage\<close>: \<open>Obj\<close> is a \<open>*json.RawMessage\<close>, a pointer that may be nil.
\<close>

record WSMessage =
  Namespace :: string
  Type :: string
  Obj :: "RawMessage option"

definition Namespace :: string where
  "Namespace = ''Graph''"

text \<open>The dynamic type of the \<open>interface{}\<close> that the codec returns.\<close>

datatype Object = ObjMsg WSMessage | ObjNode Node | ObjEdge Edge

text \<open>The argument of \<open>Graph.SetMetadata\<close> is an \<open>interface{}\<close> holding a node or an edge.\<close>

datatype Entity = NodeE Node | EdgeE Edge

text \<open>
  The six methods of the graph event listener that \<open>GraphServer\<close> implements; a value
  of this type is one call of the Graph to its listener.
\<close>

datatype GraphEvent =
    EvNodeUpdated Node
  | EvNodeAdded Node
  | EvNodeDeleted Node
  | EvEdgeUpdated Edge
  | EvEdgeAdded Edge
  | EvEdgeDeleted Edge

text \<open>Run-time panics of the Go code: a nil dereference and a failed type assertion.\<close>

datatype panic = NilPointerDereference | InterfaceConversion

datatype LogEntry = Errorf WSMessage error | Debugf Identifier

text \<open>
  Modelled from the spec: the collaborators of \<open>server.go\<close>, none of which is in the
  sources. \<open>json_Unmarshal\<close> is \<open>json.Unmarshal\<close> into an \<open>interface{}\<close> (type \<open>'j\<close>);
  \<open>Node_Decode\<close> and \<open>Edge_Decode\<close> are the \<open>Decode\<close> methods; \<open>json_Marshal\<close> is
  \<open>json.Marshal\<close> of the Graph, with both of its results; the \<open>JsonRawMessage\<close>
  methods return a pointer. The remaining fields are the methods of the Graph (state
  type \<open>'g\<close>): a lookup returns the stored element or nil, a mutation returns the new
  graph together with the calls it makes to its listener, in order (the spec: the Graph
  notifies registered listeners synchronously on every mutation).
\<close>

record ('j, 'g) Collaborators =
  json_Unmarshal :: "RawMessage \<Rightarrow> error + 'j"
  Node_Decode :: "'j \<Rightarrow> error + Node"
  Edge_Decode :: "'j \<Rightarrow> error + Edge"
  json_Marshal :: "'g \<Rightarrow> RawMessage \<times> error option"
  Node_JsonRawMessage :: "Node \<Rightarrow> RawMessage option"
  Edge_JsonRawMessage :: "Edge \<Rightarrow> RawMessage option"
  GetNode :: "'g \<Rightarrow> Identifier \<Rightarrow> Node option"
  GetEdge :: "'g \<Rightarrow> Identifier \<Rightarrow> Edge option"
  AddNode :: "'g \<Rightarrow> Node \<Rightarrow> 'g \<times> GraphEvent list"
  DelNode :: "'g \<Rightarrow> Node \<Rightarrow> 'g \<times> GraphEvent list"
  AddEdge :: "'g \<Rightarrow> Edge \<Rightarrow> 'g \<times> GraphEvent list"
  DelEdge :: "'g \<Rightarrow> Edge \<Rightarrow> 'g \<times> GraphEvent list"
  SetMetadata :: "'g \<Rightarrow> Entity \<Rightarrow> Metadata \<Rightarrow> 'g \<times> GraphEvent list"
  DelSubGraph :: "'g \<Rightarrow> Node \<Rightarrow> 'g \<times> GraphEvent list"

text \<open>
  What a call of the server can change: the Graph, the messages handed to
  \<open>WSServer.BroadcastWSMessage\<close>, the messages handed to \<open>SendWSMessage\<close> of a
  client, and the log. The lock of the Graph is not modelled: every function below is
  one uninterrupted call.
\<close>

record 'g World =
  Graph :: 'g
  broadcast :: "WSMessage list"
  sent :: "(WSClient \<times> WSMessage) list"
  logged :: "LogEntry list"

subsection \<open>The codec\<close>

definition node_types :: "string list" where
  "node_types = [''SubGraphDeleted'', ''NodeUpdated'', ''NodeDeleted'', ''NodeAdded'']"

definition edge_types :: "string list" where
  "edge_types = [''EdgeUpdated'', ''EdgeDeleted'', ''EdgeAdded'']"

text \<open>
  The result is a panic (\<open>*msg.Obj\<close> with a nil \<open>Obj\<close>) or the three values that the
  Go function returns; \<open>None\<close> is a nil error.
\<close>

definition UnmarshalWSMessage ::
  "('j, 'g) Collaborators \<Rightarrow> WSMessage \<Rightarrow> panic + (string \<times> Object \<times> error option)" where
  "UnmarshalWSMessage E msg =
    (if Type msg = ''SyncRequest'' then Inr (Type msg, ObjMsg msg, None)
     else if Type msg \<in> set node_types then
       (case Obj msg of
          None \<Rightarrow> Inl NilPointerDereference
        | Some raw \<Rightarrow>
            (case json_Unmarshal E raw of
               Inl err \<Rightarrow> Inr ('''', ObjMsg msg, Some err)
             | Inr obj \<Rightarrow>
                 (case Node_Decode E obj of
                    Inl err \<Rightarrow> Inr ('''', ObjMsg msg, Some err)
                  | Inr node \<Rightarrow> Inr (Type msg, ObjNode node, None))))
     else if Type msg \<in> set edge_types then
       (case Obj msg of
          None \<Rightarrow> Inl NilPointerDereference
        | Some raw \<Rightarrow>
            (case json_Unmarshal E raw of
               Inl err \<Rightarrow> Inr ('''', ObjMsg msg, Some err)
             | Inr obj \<Rightarrow>
                 (case Edge_Decode E obj of
                    Inl err \<Rightarrow> Inr ('''', ObjMsg msg, Some err)
                  | Inr edge \<Rightarrow> Inr (Type msg, ObjEdge edge, None))))
     else Inr ('''', ObjMsg msg, None))"

subsection \<open>The relay\<close>

definition BroadcastWSMessage :: "WSMessage \<Rightarrow> 'g World \<Rightarrow> 'g World" where
  "BroadcastWSMessage m s = s\<lparr>broadcast := broadcast s @ [m]\<rparr>"

definition OnNodeUpdated :: "('j, 'g) Collaborators \<Rightarrow> Node \<Rightarrow> 'g World \<Rightarrow> 'g World" where
  "OnNodeUpdated E n =
     BroadcastWSMessage \<lparr>WSMessage.Namespace = Namespace, Type = ''NodeUpdated'',
       Obj = Node_JsonRawMessage E n\<rparr>"

definition OnNodeAdded :: "('j, 'g) Collaborators \<Rightarrow> Node \<Rightarrow> 'g World \<Rightarrow> 'g World" where
  "OnNodeAdded E n =
     BroadcastWSMessage \<lparr>WSMessage.Namespace = Namespace, Type = ''NodeAdded'',
       Obj = Node_JsonRawMessage E n\<rparr>"

definition OnNodeDeleted :: "('j, 'g) Collaborators \<Rightarrow> Node \<Rightarrow> 'g World \<Rightarrow> 'g World" where
  "OnNodeDeleted E n =
     BroadcastWSMessage \<lparr>WSMessage.Namespace = Namespace, Type = ''NodeDeleted'',
       Obj = Node_JsonRawMessage E n\<rparr>"

definition OnEdgeUpdated :: "('j, 'g) Collaborators \<Rightarrow> Edge \<Rightarrow> 'g World \<Rightarrow> 'g World" where
  "OnEdgeUpdated E e =
     BroadcastWSMessage \<lparr>WSMessage.Namespace = Namespace, Type = ''EdgeUpdated'',
       Obj = Edge_JsonRawMessage E e\<rparr>"

definition OnEdgeAdded :: "('j, 'g) Collaborators \<Rightarrow> Edge \<Rightarrow> 'g World \<Rightarrow> 'g World" where
  "OnEdgeAdded E e =
     BroadcastWSMessage \<lparr>WSMessage.Namespace = Namespace, Type = ''EdgeAdded'',
       Obj = Edge_JsonRawMessage E e\<rparr>"

definition OnEdgeDeleted :: "('j, 'g) Collaborators \<Rightarrow> Edge \<Rightarrow> 'g World \<Rightarrow> 'g World" where
  "OnEdgeDeleted E e =
     BroadcastWSMessage \<lparr>WSMessage.Namespace = Namespace, Type = ''EdgeDeleted'',
       Obj = Edge_JsonRawMessage E e\<rparr>"

text \<open>
  Modelled from the spec: the Graph's calls to its listener are in graph.go, which is
  missing. \<open>NewServer\<close> registers the server as a listener of the Graph, so each event
  of the Graph is one call of the method of the same name.
\<close>

fun notify :: "('j, 'g) Collaborators \<Rightarrow> GraphEvent \<Rightarrow> 'g World \<Rightarrow> 'g World" where
  "notify E (EvNodeUpdated n) = OnNodeUpdated E n"
| "notify E (EvNodeAdded n) = OnNodeAdded E n"
| "notify E (EvNodeDeleted n) = OnNodeDeleted E n"
| "notify E (EvEdgeUpdated e) = OnEdgeUpdated E e"
| "notify E (EvEdgeAdded e) = OnEdgeAdded E e"
| "notify E (EvEdgeDeleted e) = OnEdgeDeleted E e"

definition relay :: "('j, 'g) Collaborators \<Rightarrow> GraphEvent list \<Rightarrow> 'g World \<Rightarrow> 'g World" where
  "relay E evs s = fold (notify E) evs s"

subsection \<open>The dispatcher\<close>

text \<open>The type assertions \<open>obj.(*Node)\<close> and \<open>obj.(*Edge)\<close>, which panic on another type.\<close>

fun asNode :: "Object \<Rightarrow> panic + Node" where
  "asNode (ObjNode n) = Inr n"
| "asNode _ = Inl InterfaceConversion"

fun asEdge :: "Object \<Rightarrow> panic + Edge" where
  "asEdge (ObjEdge e) = Inr e"
| "asEdge _ = Inl InterfaceConversion"

text \<open>
  A mutating call on \<open>s.Graph\<close>: the Graph takes its new value and the listener calls
  that the Graph made are relayed.
\<close>

definition graph_call ::
  "('j, 'g) Collaborators \<Rightarrow> 'g \<times> GraphEvent list \<Rightarrow> 'g World \<Rightarrow> 'g World" where
  "graph_call E r s = relay E (snd r) (s\<lparr>Graph := fst r\<rparr>)"

definition SendWSMessage :: "WSClient \<Rightarrow> WSMessage \<Rightarrow> 'g World \<Rightarrow> 'g World" where
  "SendWSMessage c m s = s\<lparr>sent := sent s @ [(c, m)]\<rparr>"

definition OnMessage ::
  "('j, 'g) Collaborators \<Rightarrow> WSClient \<Rightarrow> WSMessage \<Rightarrow> 'g World \<Rightarrow> panic + 'g World" where
  "OnMessage E c msg s =
    (if WSMessage.Namespace msg \<noteq> Namespace then Inr s
     else
       (case UnmarshalWSMessage E msg of
          Inl p \<Rightarrow> Inl p
        | Inr (msgType, obj, Some err) \<Rightarrow> Inr (s\<lparr>logged := logged s @ [Errorf msg err]\<rparr>)
        | Inr (msgType, obj, None) \<Rightarrow>
            if msgType = ''SyncRequest'' then
              Inr (SendWSMessage c
                     \<lparr>WSMessage.Namespace = Namespace, Type = ''SyncReply'',
                       Obj = Some (fst (json_Marshal E (Graph s)))\<rparr> s)
            else if msgType = ''SubGraphDeleted'' then
              (case asNode obj of
                 Inl p \<Rightarrow> Inl p
               | Inr n \<Rightarrow>
                   let s1 = s\<lparr>logged := logged s @ [Debugf (Node.ID n)]\<rparr> in
                   (case GetNode E (Graph s1) (Node.ID n) of
                      None \<Rightarrow> Inr s1
                    | Some node \<Rightarrow> Inr (graph_call E (DelSubGraph E (Graph s1) node) s1)))
            else if msgType = ''NodeUpdated'' then
              (case asNode obj of
                 Inl p \<Rightarrow> Inl p
               | Inr n \<Rightarrow>
                   (case GetNode E (Graph s) (Node.ID n) of
                      None \<Rightarrow> Inr s
                    | Some node \<Rightarrow>
                        Inr (graph_call E
                               (SetMetadata E (Graph s) (NodeE node) (Node.metadata n)) s)))
            else if msgType = ''NodeDeleted'' then
              (case asNode obj of
                 Inl p \<Rightarrow> Inl p
               | Inr n \<Rightarrow> Inr (graph_call E (DelNode E (Graph s) n) s))
            else if msgType = ''NodeAdded'' then
              (case asNode obj of
                 Inl p \<Rightarrow> Inl p
               | Inr n \<Rightarrow>
                   (case GetNode E (Graph s) (Node.ID n) of
                      None \<Rightarrow> Inr (graph_call E (AddNode E (Graph s) n) s)
                    | Some node \<Rightarrow> Inr s))
            else if msgType = ''EdgeUpdated'' then
              (case asEdge obj of
                 Inl p \<Rightarrow> Inl p
               | Inr e \<Rightarrow>
                   (case GetEdge E (Graph s) (Edge.ID e) of
                      None \<Rightarrow> Inr s
                    | Some edge \<Rightarrow>
                        Inr (graph_call E
                               (SetMetadata E (Graph s) (EdgeE edge) (Edge.metadata e)) s)))
            else if msgType = ''EdgeDeleted'' then
              (case asEdge obj of
                 Inl p \<Rightarrow> Inl p
               | Inr e \<Rightarrow> Inr (graph_call E (DelEdge E (Graph s) e) s))
            else if msgType = ''EdgeAdded'' then
              (case asEdge obj of
                 Inl p \<Rightarrow> Inl p
               | Inr e \<Rightarrow>
                   (case GetEdge E (Graph s) (Edge.ID e) of
                      None \<Rightarrow> Inr (graph_call E (AddEdge E (Graph s) e) s)
                    | Some edge \<Rightarrow> Inr s))
            else Inr s))"

subsection \<open>A reference instance of the collaborators\<close>

text \<open>
  Modelled from the spec: graph.go is missing; \<open>MemGraph\<close> is a Graph kept in memory
  as the spec describes the collaborator. It owns the nodes and the edges, looks an
  element up by its ID, adds and deletes elements, replaces the metadata of a stored
  element, deletes the connected subgraph of a node, serialises all of its content, and
  reports every mutation to the listener. Deleting or updating an element that is not
  stored changes nothing and reports nothing. Adding appends without a check, so that a
  second add of the same node would be visible as a second copy.
\<close>

record MemGraph =
  nodes :: "Node list"
  edges :: "Edge list"

definition mem_GetNode :: "MemGraph \<Rightarrow> Identifier \<Rightarrow> Node option" where
  "mem_GetNode g i = find (\<lambda>n. Node.ID n = i) (nodes g)"

definition mem_GetEdge :: "MemGraph \<Rightarrow> Identifier \<Rightarrow> Edge option" where
  "mem_GetEdge g i = find (\<lambda>e. Edge.ID e = i) (edges g)"

definition mem_AddNode :: "MemGraph \<Rightarrow> Node \<Rightarrow> MemGraph \<times> GraphEvent list" where
  "mem_AddNode g n = (g\<lparr>nodes := nodes g @ [n]\<rparr>, [EvNodeAdded n])"

definition mem_AddEdge :: "MemGraph \<Rightarrow> Edge \<Rightarrow> MemGraph \<times> GraphEvent list" where
  "mem_AddEdge g e = (g\<lparr>edges := edges g @ [e]\<rparr>, [EvEdgeAdded e])"

definition mem_DelNode :: "MemGraph \<Rightarrow> Node \<Rightarrow> MemGraph \<times> GraphEvent list" where
  "mem_DelNode g n =
     (if mem_GetNode g (Node.ID n) = None then (g, [])
      else (g\<lparr>nodes := filter (\<lambda>x. Node.ID x \<noteq> Node.ID n) (nodes g)\<rparr>, [EvNodeDeleted n]))"

definition mem_DelEdge :: "MemGraph \<Rightarrow> Edge \<Rightarrow> MemGraph \<times> GraphEvent list" where
  "mem_DelEdge g e =
     (if mem_GetEdge g (Edge.ID e) = None then (g, [])
      else (g\<lparr>edges := filter (\<lambda>x. Edge.ID x \<noteq> Edge.ID e) (edges g)\<rparr>, [EvEdgeDeleted e]))"

fun mem_SetMetadata :: "MemGraph \<Rightarrow> Entity \<Rightarrow> Metadata \<Rightarrow> MemGraph \<times> GraphEvent list" where
  "mem_SetMetadata g (NodeE n) m =
     (if mem_GetNode g (Node.ID n) = None then (g, [])
      else (g\<lparr>nodes := map (\<lambda>x. if Node.ID x = Node.ID n then x\<lparr>Node.metadata := m\<rparr> else x)
                          (nodes g)\<rparr>,
            [EvNodeUpdated (n\<lparr>Node.metadata := m\<rparr>)]))"
| "mem_SetMetadata g (EdgeE e) m =
     (if mem_GetEdge g (Edge.ID e) = None then (g, [])
      else (g\<lparr>edges := map (\<lambda>x. if Edge.ID x = Edge.ID e then x\<lparr>Edge.metadata := m\<rparr> else x)
                          (edges g)\<rparr>,
            [EvEdgeUpdated (e\<lparr>Edge.metadata := m\<rparr>)]))"

text \<open>
  The identities connected to \<open>seen\<close> by at most \<open>k\<close> edges, followed in both
  directions.
\<close>

fun connected :: "Edge list \<Rightarrow> nat \<Rightarrow> Identifier list \<Rightarrow> Identifier list" where
  "connected es 0 seen = seen"
| "connected es (Suc k) seen =
     connected es k
       (remdups (seen @ map child (filter (\<lambda>e. parent e \<in> set seen) es)
                      @ map parent (filter (\<lambda>e. child e \<in> set seen) es)))"

definition mem_DelSubGraph :: "MemGraph \<Rightarrow> Node \<Rightarrow> MemGraph \<times> GraphEvent list" where
  "mem_DelSubGraph g root =
     (let gone = connected (edges g) (length (edges g)) [Node.ID root];
          dead_edges = filter (\<lambda>e. parent e \<in> set gone \<or> child e \<in> set gone) (edges g);
          dead_nodes = filter (\<lambda>n. Node.ID n \<in> set gone) (nodes g)
      in (\<lparr>nodes = filter (\<lambda>n. Node.ID n \<notin> set gone) (nodes g),
           edges = filter (\<lambda>e. \<not> (parent e \<in> set gone \<or> child e \<in> set gone)) (edges g)\<rparr>,
          map EvEdgeDeleted dead_edges @ map EvNodeDeleted dead_nodes))"

text \<open>
  Modelled from the spec: the wire format of nodes, edges and the Graph is outside
  \<open>server.go\<close> and outside the spec. The reference instance writes an element as a
  line of text.
\<close>

definition render_Metadata :: "Metadata \<Rightarrow> string" where
  "render_Metadata m = concat (map (\<lambda>(k, v). k @ ''='' @ v @ '','') m)"

definition render_Node :: "Node \<Rightarrow> RawMessage" where
  "render_Node n = ''node '' @ Node.ID n @ '' {'' @ render_Metadata (Node.metadata n) @ ''}''"

definition render_Edge :: "Edge \<Rightarrow> RawMessage" where
  "render_Edge e =
     ''edge '' @ Edge.ID e @ '' '' @ parent e @ ''->'' @ child e
       @ '' {'' @ render_Metadata (Edge.metadata e) @ ''}''"

definition mem_Marshal :: "MemGraph \<Rightarrow> RawMessage \<times> error option" where
  "mem_Marshal g =
     (concat (map (\<lambda>n. render_Node n @ '';'') (nodes g))
        @ concat (map (\<lambda>e. render_Edge e @ '';'') (edges g)), None)"

text \<open>Sample elements, and the answers of the decoders on the sample payloads.\<close>

definition n1 :: Node where
  "n1 = \<lparr>Node.ID = ''n1'', metadata = []\<rparr>"

definition n2 :: Node where
  "n2 = \<lparr>Node.ID = ''n2'', metadata = [(''Name'', ''eth0'')]\<rparr>"

definition e1 :: Edge where
  "e1 = \<lparr>Edge.ID = ''e1'', metadata = [], parent = ''n1'', child = ''n2''\<rparr>"

datatype Parsed = PNode Node | PEdge Edge | PNumber

definition sample_Unmarshal :: "RawMessage \<Rightarrow> error + Parsed" where
  "sample_Unmarshal raw =
     (if raw = render_Node n1 then Inr (PNode n1)
      else if raw = render_Node n2 then Inr (PNode n2)
      else if raw = render_Edge e1 then Inr (PEdge e1)
      else if raw = ''1'' then Inr PNumber
      else Inl ''invalid character'')"

fun sample_Node_Decode :: "Parsed \<Rightarrow> error + Node" where
  "sample_Node_Decode (PNode n) = Inr n"
| "sample_Node_Decode _ = Inl ''not a node''"

fun sample_Edge_Decode :: "Parsed \<Rightarrow> error + Edge" where
  "sample_Edge_Decode (PEdge e) = Inr e"
| "sample_Edge_Decode _ = Inl ''not an edge''"

definition Ref :: "(Parsed, MemGraph) Collaborators" where
  "Ref = \<lparr>json_Unmarshal = sample_Unmarshal,
          Node_Decode = sample_Node_Decode,
          Edge_Decode = sample_Edge_Decode,
          json_Marshal = mem_Marshal,
          Node_JsonRawMessage = (\<lambda>n. Some (render_Node n)),
          Edge_JsonRawMessage = (\<lambda>e. Some (render_Edge e)),
          GetNode = mem_GetNode,
          GetEdge = mem_GetEdge,
          AddNode = mem_AddNode,
          DelNode = mem_DelNode,
          AddEdge = mem_AddEdge,
          DelEdge = mem_DelEdge,
          SetMetadata = mem_SetMetadata,
          DelSubGraph = mem_DelSubGraph\<rparr>"

definition world0 :: "MemGraph World" where
  "world0 = \<lparr>Graph = \<lparr>nodes = [], edges = []\<rparr>, broadcast = [], sent = [], logged = []\<rparr>"

definition world1 :: "MemGraph World" where
  "world1 = \<lparr>Graph = \<lparr>nodes = [n1, n2], edges = [e1]\<rparr>, broadcast = [], sent = [], logged = []\<rparr>"

definition graph_msg :: "string \<Rightarrow> RawMessage option \<Rightarrow> WSMessage" where
  "graph_msg t payload = \<lparr>WSMessage.Namespace = Namespace, Type = t, Obj = payload\<rparr>"

definition flow_add :: WSMessage where
  "flow_add = \<lparr>WSMessage.Namespace = ''Flow'', Type = ''NodeAdded'', Obj = Some (render_Node n1)\<rparr>"

definition flow_sync :: WSMessage where
  "flow_sync = \<lparr>WSMessage.Namespace = ''Flow'', Type = ''SyncRequest'', Obj = None\<rparr>"

definition flow_ping :: WSMessage where
  "flow_ping = \<lparr>WSMessage.Namespace = ''Flow'', Type = ''Ping'', Obj = None\<rparr>"

text \<open>A graph whose copies of \<open>n2\<close> and \<open>e1\<close> carry older metadata.\<close>

definition world_stale :: "MemGraph World" where
  "world_stale =
     \<lparr>Graph = \<lparr>nodes = [n1, n2\<lparr>Node.metadata := []\<rparr>],
                edges = [e1\<lparr>Edge.metadata := [(''State'', ''DOWN'')]\<rparr>]\<rparr>,
      broadcast = [], sent = [], logged = []\<rparr>"

text \<open>The empty world after \<open>n1\<close>, respectively \<open>e1\<close>, has been added and relayed.\<close>

definition world_n1 :: "MemGraph World" where
  "world_n1 = \<lparr>Graph = \<lparr>nodes = [n1], edges = []\<rparr>,
               broadcast = [graph_msg ''NodeAdded'' (Some (render_Node n1))],
               sent = [], logged = []\<rparr>"

definition world_e1 :: "MemGraph World" where
  "world_e1 = \<lparr>Graph = \<lparr>nodes = [], edges = [e1]\<rparr>,
               broadcast = [graph_msg ''EdgeAdded'' (Some (render_Edge e1))],
               sent = [], logged = []\<rparr>"

subsection \<open>What the spec expects of the relay and of the codec\<close>

text \<open>
  The spec's envelope for a reported mutation: the type names the kind of mutation, the
  payload is the serialised form of the mutated element, the namespace is the graph
  namespace. These definitions follow the spec; the relay above follows the code.
\<close>

fun event_type :: "GraphEvent \<Rightarrow> string" where
  "event_type (EvNodeUpdated n) = ''NodeUpdated''"
| "event_type (EvNodeAdded n) = ''NodeAdded''"
| "event_type (EvNodeDeleted n) = ''NodeDeleted''"
| "event_type (EvEdgeUpdated e) = ''EdgeUpdated''"
| "event_type (EvEdgeAdded e) = ''EdgeAdded''"
| "event_type (EvEdgeDeleted e) = ''EdgeDeleted''"

fun event_payload :: "('j, 'g) Collaborators \<Rightarrow> GraphEvent \<Rightarrow> RawMessage option" where
  "event_payload E (EvNodeUpdated n) = Node_JsonRawMessage E n"
| "event_payload E (EvNodeAdded n) = Node_JsonRawMessage E n"
| "event_payload E (EvNodeDeleted n) = Node_JsonRawMessage E n"
| "event_payload E (EvEdgeUpdated e) = Edge_JsonRawMessage E e"
| "event_payload E (EvEdgeAdded e) = Edge_JsonRawMessage E e"
| "event_payload E (EvEdgeDeleted e) = Edge_JsonRawMessage E e"

definition expected_broadcast :: "('j, 'g) Collaborators \<Rightarrow> GraphEvent \<Rightarrow> WSMessage" where
  "expected_broadcast E ev =
     \<lparr>WSMessage.Namespace = Namespace, Type = event_type ev, Obj = event_payload E ev\<rparr>"

text \<open>
  The codec hands the message itself back where it decodes nothing; \<open>in_namespace\<close>
  moves such a message to another namespace and leaves a decoded element alone.
\<close>

fun in_namespace :: "string \<Rightarrow> Object \<Rightarrow> Object" where
  "in_namespace ns (ObjMsg m) = ObjMsg (m\<lparr>WSMessage.Namespace := ns\<rparr>)"
| "in_namespace ns (ObjNode n) = ObjNode n"
| "in_namespace ns (ObjEdge e) = ObjEdge e"

section \<open>Properties\<close>

subsection \<open>The codec, case by case\<close>

lemma codec_sync:
  "Type msg = ''SyncRequest'' \<Longrightarrow>
     UnmarshalWSMessage E msg = Inr (''SyncRequest'', ObjMsg msg, None)"
  by (simp add: UnmarshalWSMessage_def)

lemma codec_node:
  assumes "Type msg \<in> set node_types" "Obj msg = Some raw"
    "json_Unmarshal E raw = Inr j" "Node_Decode E j = Inr n"
  shows "UnmarshalWSMessage E msg = Inr (Type msg, ObjNode n, None)"
  using assms by (auto simp: UnmarshalWSMessage_def node_types_def)

lemma codec_edge:
  assumes "Type msg \<in> set edge_types" "Obj msg = Some raw"
    "json_Unmarshal E raw = Inr j" "Edge_Decode E j = Inr e"
  shows "UnmarshalWSMessage E msg = Inr (Type msg, ObjEdge e, None)"
  using assms by (auto simp: UnmarshalWSMessage_def node_types_def edge_types_def)

lemma codec_unknown:
  assumes "Type msg \<noteq> ''SyncRequest''" "Type msg \<notin> set node_types"
    "Type msg \<notin> set edge_types"
  shows "UnmarshalWSMessage E msg = Inr ('''', ObjMsg msg, None)"
  using assms by (simp add: UnmarshalWSMessage_def)

lemma codec_error:
  assumes "Obj msg = Some raw"
    and "(Type msg \<in> set node_types \<union> set edge_types \<and> json_Unmarshal E raw = Inl err)
       \<or> (Type msg \<in> set node_types
            \<and> (\<exists>j. json_Unmarshal E raw = Inr j \<and> Node_Decode E j = Inl err))
       \<or> (Type msg \<in> set edge_types
            \<and> (\<exists>j. json_Unmarshal E raw = Inr j \<and> Edge_Decode E j = Inl err))"
  shows "UnmarshalWSMessage E msg = Inr ('''', ObjMsg msg, Some err)"
  using assms by (auto simp: UnmarshalWSMessage_def node_types_def edge_types_def)

text \<open>
  A node or edge message without a payload reaches neither decode stage: the codec
  dereferences the nil \<open>Obj\<close> first, and panics.
\<close>

lemma codec_nil_payload:
  assumes "Type msg \<in> set node_types \<union> set edge_types" "Obj msg = None"
  shows "UnmarshalWSMessage E msg = Inl NilPointerDereference"
  using assms by (auto simp: UnmarshalWSMessage_def node_types_def edge_types_def)

lemma empty_tag_not_a_type: "[] \<notin> set node_types" "[] \<notin> set edge_types"
  by (simp_all add: node_types_def edge_types_def)

lemma codec_shape:
  assumes "UnmarshalWSMessage E msg = Inr (t, obj, err)"
  shows "(err \<noteq> None \<longrightarrow> t = '''')
       \<and> (err = None \<and> t \<in> set node_types \<longrightarrow> (\<exists>n. obj = ObjNode n))
       \<and> (err = None \<and> t \<in> set edge_types \<longrightarrow> (\<exists>e. obj = ObjEdge e))"
proof (cases "Type msg = ''SyncRequest''")
  case True
  then show ?thesis using assms
    by (auto simp: UnmarshalWSMessage_def node_types_def edge_types_def)
next
  case ns: False
  show ?thesis
  proof (cases "Type msg \<in> set node_types")
    case True
    then show ?thesis using assms ns
      by (auto simp: UnmarshalWSMessage_def edge_types_def node_types_def
               split: option.splits sum.splits)
  next
    case nn: False
    show ?thesis
    proof (cases "Type msg \<in> set edge_types")
      case True
      then show ?thesis using assms ns nn
        by (auto simp: UnmarshalWSMessage_def edge_types_def node_types_def
               split: option.splits sum.splits)
    next
      case False
      then show ?thesis using assms ns nn
        by (auto simp: UnmarshalWSMessage_def empty_tag_not_a_type)
    qed
  qed
qed

lemma codec_namespace_update:
  "UnmarshalWSMessage E (msg\<lparr>WSMessage.Namespace := ns\<rparr>) =
     map_sum id (\<lambda>(t, obj, err). (t, in_namespace ns obj, err)) (UnmarshalWSMessage E msg)"
  by (simp add: UnmarshalWSMessage_def split: option.splits sum.splits)

subsection \<open>The relay and a call on the Graph\<close>

lemma notify_expected:
  "notify E ev s = s\<lparr>broadcast := broadcast s @ [expected_broadcast E ev]\<rparr>"
  by (cases ev)
     (simp_all add: expected_broadcast_def BroadcastWSMessage_def OnNodeUpdated_def
        OnNodeAdded_def OnNodeDeleted_def OnEdgeUpdated_def OnEdgeAdded_def OnEdgeDeleted_def)

lemma relay_expected:
  "relay E evs s = s\<lparr>broadcast := broadcast s @ map (expected_broadcast E) evs\<rparr>"
  unfolding relay_def
  by (induction evs arbitrary: s) (simp_all add: notify_expected)

lemma Graph_graph_call: "Graph (graph_call E r s) = fst r"
  by (simp add: graph_call_def relay_expected)

lemma graph_call_noop: "graph_call E (Graph s, []) s = s"
  by (simp add: graph_call_def relay_def)

subsection \<open>The dispatcher never fails a type assertion\<close>

lemma dispatch_no_conversion_panic: "OnMessage E c msg s \<noteq> Inl InterfaceConversion"
proof (cases "WSMessage.Namespace msg = Namespace")
  case False
  then show ?thesis by (simp add: OnMessage_def)
next
  case ns: True
  show ?thesis
  proof (cases "UnmarshalWSMessage E msg")
    case (Inl p)
    then have "p = NilPointerDereference"
      by (simp add: UnmarshalWSMessage_def split: if_splits option.splits sum.splits)
    with Inl show ?thesis by (simp add: OnMessage_def)
  next
    case (Inr r)
    obtain t obj err where r: "r = (t, obj, err)" by (cases r)
    note sh = codec_shape[OF Inr[unfolded r]]
    show ?thesis
    proof (cases err)
      case (Some x)
      with Inr r show ?thesis by (simp add: OnMessage_def)
    next
      case None
      note u = Inr[unfolded r None]
      consider (node) "t \<in> set node_types" | (edge) "t \<in> set edge_types"
        | (other) "t \<notin> set node_types" "t \<notin> set edge_types" by blast
      then show ?thesis
      proof cases
        case node
        with sh None obtain n where n: "obj = ObjNode n" by blast
        from node consider "t = ''SubGraphDeleted''" | "t = ''NodeUpdated''"
          | "t = ''NodeDeleted''" | "t = ''NodeAdded''"
          by (auto simp: node_types_def)
        then show ?thesis
          by cases (simp_all add: OnMessage_def ns u n Let_def split: option.splits)
      next
        case edge
        with sh None obtain e where e: "obj = ObjEdge e" by blast
        from edge consider "t = ''EdgeUpdated''" | "t = ''EdgeDeleted''" | "t = ''EdgeAdded''"
          by (auto simp: edge_types_def)
        then show ?thesis
          by cases (simp_all add: OnMessage_def ns u e split: option.splits)
      next
        case other
        then have "t \<noteq> ''SubGraphDeleted''" "t \<noteq> ''NodeUpdated''" "t \<noteq> ''NodeDeleted''"
          "t \<noteq> ''NodeAdded''" "t \<noteq> ''EdgeUpdated''" "t \<noteq> ''EdgeDeleted''"
          "t \<noteq> ''EdgeAdded''"
          by (simp_all add: node_types_def edge_types_def)
        then show ?thesis
          by (simp add: OnMessage_def ns u)
      qed
    qed
  qed
qed

subsection \<open>The reference instance\<close>

lemma Ref_sel:
  "json_Unmarshal Ref = sample_Unmarshal" "Node_Decode Ref = sample_Node_Decode"
  "Edge_Decode Ref = sample_Edge_Decode" "json_Marshal Ref = mem_Marshal"
  "Node_JsonRawMessage Ref n = Some (render_Node n)"
  "Edge_JsonRawMessage Ref e = Some (render_Edge e)"
  "GetNode Ref = mem_GetNode" "GetEdge Ref = mem_GetEdge"
  "AddNode Ref = mem_AddNode" "DelNode Ref = mem_DelNode"
  "AddEdge Ref = mem_AddEdge" "DelEdge Ref = mem_DelEdge"
  "SetMetadata Ref = mem_SetMetadata" "DelSubGraph Ref = mem_DelSubGraph"
  by (simp_all add: Ref_def)

lemmas sample_values =
  n1_def n2_def e1_def world0_def world1_def world_stale_def
  sample_Unmarshal_def render_Node_def render_Edge_def render_Metadata_def
  mem_GetNode_def mem_GetEdge_def mem_AddNode_def mem_AddEdge_def mem_DelNode_def
  mem_DelEdge_def mem_Marshal_def

lemma sample_parse:
  "json_Unmarshal Ref (render_Node n1) = Inr (PNode n1)"
  "json_Unmarshal Ref (render_Node n2) = Inr (PNode n2)"
  "json_Unmarshal Ref (render_Edge e1) = Inr (PEdge e1)"
  "json_Unmarshal Ref ''1'' = Inr PNumber"
  "json_Unmarshal Ref ''{'' = Inl ''invalid character''"
  "Node_Decode Ref (PNode n) = Inr n"
  "Edge_Decode Ref (PEdge e) = Inr e"
  "Node_Decode Ref PNumber = Inl ''not a node''"
  "Edge_Decode Ref PNumber = Inl ''not an edge''"
  by (simp_all add: Ref_sel sample_values)

lemma graph_msg_sel:
  "WSMessage.Namespace (graph_msg t p) = Namespace" "Obj (graph_msg t p) = p"
  "Type (graph_msg t p) = t"
  by (simp_all add: graph_msg_def)

lemma graph_call_Ref:
  "graph_call Ref r s =
     s\<lparr>Graph := fst r, broadcast := broadcast s @ map (expected_broadcast Ref) (snd r)\<rparr>"
  by (simp add: graph_call_def relay_expected)

lemma expected_Ref:
  "expected_broadcast Ref (EvNodeUpdated n) = graph_msg ''NodeUpdated'' (Some (render_Node n))"
  "expected_broadcast Ref (EvNodeAdded n) = graph_msg ''NodeAdded'' (Some (render_Node n))"
  "expected_broadcast Ref (EvNodeDeleted n) = graph_msg ''NodeDeleted'' (Some (render_Node n))"
  "expected_broadcast Ref (EvEdgeUpdated e) = graph_msg ''EdgeUpdated'' (Some (render_Edge e))"
  "expected_broadcast Ref (EvEdgeAdded e) = graph_msg ''EdgeAdded'' (Some (render_Edge e))"
  "expected_broadcast Ref (EvEdgeDeleted e) = graph_msg ''EdgeDeleted'' (Some (render_Edge e))"
  by (simp_all add: expected_broadcast_def graph_msg_def Ref_sel)

text \<open>The in-memory Graph finds what was added and ignores the deletion of what is absent.\<close>

lemma mem_add_found:
  "GetNode Ref (fst (AddNode Ref g n)) (Node.ID n) \<noteq> None"
  "GetEdge Ref (fst (AddEdge Ref g e)) (Edge.ID e) \<noteq> None"
  by (auto simp: Ref_sel mem_AddNode_def mem_GetNode_def mem_AddEdge_def mem_GetEdge_def
        find_None_iff)

lemma mem_del_absent:
  "GetNode Ref g (Node.ID x) = None \<longrightarrow> DelNode Ref g x = (g, [])"
  "GetEdge Ref g (Edge.ID y) = None \<longrightarrow> DelEdge Ref g y = (g, [])"
  by (simp_all add: Ref_sel mem_DelNode_def mem_DelEdge_def)

section \<open>The claims\<close>

text \<open>
  C1. A \<open>NodeAdded\<close> (resp. \<open>EdgeAdded\<close>) message of the graph namespace whose node
  (resp. edge) has an ID that the Graph already knows changes nothing. If the ID is
  unknown, the dispatcher makes the one call \<open>AddNode\<close> (resp. \<open>AddEdge\<close>). So, for
  a Graph that finds by its ID what has been added, a second delivery of the same
  message is a no-op: both deliveries together add the element once.
\<close>

theorem add_message_idempotent:
  assumes "WSMessage.Namespace msg = Namespace" "Obj msg = Some raw"
    "json_Unmarshal E raw = Inr j"
  shows "(Type msg = ''NodeAdded'' \<and> Node_Decode E j = Inr n \<longrightarrow>
            (GetNode E (Graph s) (Node.ID n) \<noteq> None \<longrightarrow> OnMessage E c msg s = Inr s) \<and>
            (GetNode E (Graph s) (Node.ID n) = None \<longrightarrow>
               OnMessage E c msg s = Inr (graph_call E (AddNode E (Graph s) n) s)) \<and>
            ((\<forall>g. GetNode E (fst (AddNode E g n)) (Node.ID n) \<noteq> None) \<longrightarrow>
               (\<exists>s1. OnMessage E c msg s = Inr s1 \<and> OnMessage E c msg s1 = Inr s1)))
       \<and> (Type msg = ''EdgeAdded'' \<and> Edge_Decode E j = Inr e \<longrightarrow>
            (GetEdge E (Graph s) (Edge.ID e) \<noteq> None \<longrightarrow> OnMessage E c msg s = Inr s) \<and>
            (GetEdge E (Graph s) (Edge.ID e) = None \<longrightarrow>
               OnMessage E c msg s = Inr (graph_call E (AddEdge E (Graph s) e) s)) \<and>
            ((\<forall>g. GetEdge E (fst (AddEdge E g e)) (Edge.ID e) \<noteq> None) \<longrightarrow>
               (\<exists>s1. OnMessage E c msg s = Inr s1 \<and> OnMessage E c msg s1 = Inr s1)))"
proof (intro conjI impI)
  assume a: "Type msg = ''NodeAdded'' \<and> Node_Decode E j = Inr n"
  then have u: "UnmarshalWSMessage E msg = Inr (''NodeAdded'', ObjNode n, None)"
    using codec_node[of msg raw E j n] assms by (simp add: node_types_def)
  have present: "OnMessage E c msg t = Inr t"
    if "GetNode E (Graph t) (Node.ID n) \<noteq> None" for t
    using u assms(1) that by (auto simp: OnMessage_def)
  have absent: "OnMessage E c msg t = Inr (graph_call E (AddNode E (Graph t) n) t)"
    if "GetNode E (Graph t) (Node.ID n) = None" for t
    using u assms(1) that by (simp add: OnMessage_def)
  show "GetNode E (Graph s) (Node.ID n) \<noteq> None \<Longrightarrow> OnMessage E c msg s = Inr s"
    by (rule present)
  show "GetNode E (Graph s) (Node.ID n) = None \<Longrightarrow>
          OnMessage E c msg s = Inr (graph_call E (AddNode E (Graph s) n) s)"
    by (rule absent)
  show "\<exists>s1. OnMessage E c msg s = Inr s1 \<and> OnMessage E c msg s1 = Inr s1"
    if law: "\<forall>g. GetNode E (fst (AddNode E g n)) (Node.ID n) \<noteq> None"
  proof (cases "GetNode E (Graph s) (Node.ID n) = None")
    case True
    let ?s1 = "graph_call E (AddNode E (Graph s) n) s"
    have "GetNode E (Graph ?s1) (Node.ID n) \<noteq> None"
      using law by (simp add: Graph_graph_call)
    then have "OnMessage E c msg ?s1 = Inr ?s1" by (rule present)
    with absent[OF True] show ?thesis by blast
  next
    case False
    then show ?thesis using present by blast
  qed
next
  assume a: "Type msg = ''EdgeAdded'' \<and> Edge_Decode E j = Inr e"
  then have u: "UnmarshalWSMessage E msg = Inr (''EdgeAdded'', ObjEdge e, None)"
    using codec_edge[of msg raw E j e] assms by (simp add: edge_types_def)
  have present: "OnMessage E c msg t = Inr t"
    if "GetEdge E (Graph t) (Edge.ID e) \<noteq> None" for t
    using u assms(1) that by (auto simp: OnMessage_def)
  have absent: "OnMessage E c msg t = Inr (graph_call E (AddEdge E (Graph t) e) t)"
    if "GetEdge E (Graph t) (Edge.ID e) = None" for t
    using u assms(1) that by (simp add: OnMessage_def)
  show "GetEdge E (Graph s) (Edge.ID e) \<noteq> None \<Longrightarrow> OnMessage E c msg s = Inr s"
    by (rule present)
  show "GetEdge E (Graph s) (Edge.ID e) = None \<Longrightarrow>
          OnMessage E c msg s = Inr (graph_call E (AddEdge E (Graph s) e) s)"
    by (rule absent)
  show "\<exists>s1. OnMessage E c msg s = Inr s1 \<and> OnMessage E c msg s1 = Inr s1"
    if law: "\<forall>g. GetEdge E (fst (AddEdge E g e)) (Edge.ID e) \<noteq> None"
  proof (cases "GetEdge E (Graph s) (Edge.ID e) = None")
    case True
    let ?s1 = "graph_call E (AddEdge E (Graph s) e) s"
    have "GetEdge E (Graph ?s1) (Edge.ID e) \<noteq> None"
      using law by (simp add: Graph_graph_call)
    then have "OnMessage E c msg ?s1 = Inr ?s1" by (rule present)
    with absent[OF True] show ?thesis by blast
  next
    case False
    then show ?thesis using present by blast
  qed
qed

text \<open>
  On the in-memory Graph: an add of \<open>n1\<close> or \<open>e1\<close> to a graph that holds it changes
  nothing; delivered twice to the empty graph, the first delivery stores and relays the
  element and the second changes nothing, so the graph holds it once.
\<close>

theorem add_message_idempotent_witness:
  "OnMessage Ref 7 (graph_msg ''NodeAdded'' (Some (render_Node n1))) world1 = Inr world1
   \<and> OnMessage Ref 7 (graph_msg ''NodeAdded'' (Some (render_Node n1))) world0 = Inr world_n1
   \<and> OnMessage Ref 7 (graph_msg ''NodeAdded'' (Some (render_Node n1))) world_n1 = Inr world_n1
   \<and> OnMessage Ref 7 (graph_msg ''EdgeAdded'' (Some (render_Edge e1))) world1 = Inr world1
   \<and> OnMessage Ref 7 (graph_msg ''EdgeAdded'' (Some (render_Edge e1))) world0 = Inr world_e1
   \<and> OnMessage Ref 7 (graph_msg ''EdgeAdded'' (Some (render_Edge e1))) world_e1 = Inr world_e1"
proof -
  note na = add_message_idempotent[OF graph_msg_sel(1) graph_msg_sel(2) sample_parse(1),
      of "''NodeAdded''" n1 _ 7 e1, unfolded graph_msg_sel]
  note ea = add_message_idempotent[OF graph_msg_sel(1) graph_msg_sel(2) sample_parse(3),
      of "''EdgeAdded''" n1 _ 7 e1, unfolded graph_msg_sel]
  have 1: "GetNode Ref (Graph world1) (Node.ID n1) \<noteq> None"
    and 2: "GetNode Ref (Graph world0) (Node.ID n1) = None"
    and 3: "GetEdge Ref (Graph world1) (Edge.ID e1) \<noteq> None"
    and 4: "GetEdge Ref (Graph world0) (Edge.ID e1) = None"
    by (simp_all add: Ref_sel sample_values)
  have 5: "graph_call Ref (AddNode Ref (Graph world0) n1) world0 = world_n1"
    by (simp add: graph_call_Ref Ref_sel expected_Ref mem_AddNode_def world0_def world_n1_def)
  have 6: "graph_call Ref (AddEdge Ref (Graph world0) e1) world0 = world_e1"
    by (simp add: graph_call_Ref Ref_sel expected_Ref mem_AddEdge_def world0_def world_e1_def)
  show ?thesis
    using na[of world1] na[of world0] ea[of world1] ea[of world0] mem_add_found
    by (simp add: sample_parse 1 2 3 4 5 6) auto
qed

text \<open>
  C2. A \<open>SyncRequest\<close> of the graph namespace, with or without a payload, makes the
  dispatcher serialise the current Graph and send one message to the requesting client:
  type \<open>SyncReply\<close>, graph namespace, the payload being the bytes that \<open>json.Marshal\<close>
  returned. Nothing is broadcast and the Graph and the log stay as they were.
\<close>

theorem sync_request_replies_once:
  assumes "WSMessage.Namespace msg = Namespace" "Type msg = ''SyncRequest''"
  shows "OnMessage E c msg s =
     Inr (s\<lparr>sent := sent s @ [(c, \<lparr>WSMessage.Namespace = Namespace, Type = ''SyncReply'',
                  Obj = Some (fst (json_Marshal E (Graph s)))\<rparr>)]\<rparr>)"
  using assms by (simp add: OnMessage_def codec_sync SendWSMessage_def)

text \<open>
  The spec's scenario: on the graph of \<open>n1\<close>, \<open>n2\<close> and \<open>e1\<close>, the requester gets one
  \<open>SyncReply\<close> that holds the three elements.
\<close>

theorem sync_request_replies_once_witness:
  "OnMessage Ref 7 (graph_msg ''SyncRequest'' None) world1 =
     Inr (world1\<lparr>sent := [(7, graph_msg ''SyncReply''
            (Some ''node n1 {};node n2 {Name=eth0,};edge e1 n1->n2 {};''))]\<rparr>)"
  using sync_request_replies_once[of "graph_msg ''SyncRequest'' None" Ref 7 world1]
  by (simp add: graph_msg_def Ref_sel sample_values)

text \<open>
  C3. For the mutations that the Graph reports to the listener, in the order it reports
  them, the relay appends one broadcast per mutation, in the same order: its type names
  the kind of the mutation, its namespace is the graph namespace, its payload is the
  serialised form of the mutated element. The relay changes nothing else.
\<close>

theorem relay_broadcasts_each_mutation:
  "relay E evs s = s\<lparr>broadcast := broadcast s @ map (expected_broadcast E) evs\<rparr>
   \<and> length (broadcast (relay E evs s)) = length (broadcast s) + length evs"
  by (simp add: relay_expected)

theorem relay_broadcasts_each_mutation_witness:
  "relay Ref [EvNodeAdded n1, EvEdgeAdded e1, EvNodeDeleted n1] world0 =
     world0\<lparr>broadcast := [graph_msg ''NodeAdded'' (Some (render_Node n1)),
                           graph_msg ''EdgeAdded'' (Some (render_Edge e1)),
                           graph_msg ''NodeDeleted'' (Some (render_Node n1))]\<rparr>"
  using relay_broadcasts_each_mutation
          [of Ref "[EvNodeAdded n1, EvEdgeAdded e1, EvNodeDeleted n1]" world0]
  by (simp add: expected_Ref world0_def)

text \<open>
  C4. A \<open>NodeUpdated\<close> (resp. \<open>EdgeUpdated\<close>) message of the graph namespace whose ID
  the Graph does not know changes nothing: the update is dropped, nothing is added. If
  the Graph knows the ID, the dispatcher makes one call, \<open>SetMetadata\<close> on the stored
  element with the metadata of the message, and nothing else.
\<close>

theorem stale_update_dropped:
  assumes "WSMessage.Namespace msg = Namespace" "Obj msg = Some raw"
    "json_Unmarshal E raw = Inr j"
  shows "(Type msg = ''NodeUpdated'' \<and> Node_Decode E j = Inr n \<longrightarrow>
            (GetNode E (Graph s) (Node.ID n) = None \<longrightarrow> OnMessage E c msg s = Inr s) \<and>
            (\<forall>node. GetNode E (Graph s) (Node.ID n) = Some node \<longrightarrow>
               OnMessage E c msg s =
                 Inr (graph_call E (SetMetadata E (Graph s) (NodeE node) (Node.metadata n)) s)))
       \<and> (Type msg = ''EdgeUpdated'' \<and> Edge_Decode E j = Inr e \<longrightarrow>
            (GetEdge E (Graph s) (Edge.ID e) = None \<longrightarrow> OnMessage E c msg s = Inr s) \<and>
            (\<forall>edge. GetEdge E (Graph s) (Edge.ID e) = Some edge \<longrightarrow>
               OnMessage E c msg s =
                 Inr (graph_call E (SetMetadata E (Graph s) (EdgeE edge) (Edge.metadata e)) s)))"
proof (intro conjI impI)
  assume a: "Type msg = ''NodeUpdated'' \<and> Node_Decode E j = Inr n"
  then have u: "UnmarshalWSMessage E msg = Inr (''NodeUpdated'', ObjNode n, None)"
    using codec_node[of msg raw E j n] assms by (simp add: node_types_def)
  show "GetNode E (Graph s) (Node.ID n) = None \<Longrightarrow> OnMessage E c msg s = Inr s"
    using u assms(1) by (simp add: OnMessage_def)
  show "\<forall>node. GetNode E (Graph s) (Node.ID n) = Some node \<longrightarrow>
               OnMessage E c msg s =
                 Inr (graph_call E (SetMetadata E (Graph s) (NodeE node) (Node.metadata n)) s)"
    using u assms(1) by (simp add: OnMessage_def)
next
  assume a: "Type msg = ''EdgeUpdated'' \<and> Edge_Decode E j = Inr e"
  then have u: "UnmarshalWSMessage E msg = Inr (''EdgeUpdated'', ObjEdge e, None)"
    using codec_edge[of msg raw E j e] assms by (simp add: edge_types_def)
  show "GetEdge E (Graph s) (Edge.ID e) = None \<Longrightarrow> OnMessage E c msg s = Inr s"
    using u assms(1) by (simp add: OnMessage_def)
  show "\<forall>edge. GetEdge E (Graph s) (Edge.ID e) = Some edge \<longrightarrow>
               OnMessage E c msg s =
                 Inr (graph_call E (SetMetadata E (Graph s) (EdgeE edge) (Edge.metadata e)) s)"
    using u assms(1) by (simp add: OnMessage_def)
qed

text \<open>
  On the in-memory Graph: an update of \<open>n2\<close> or \<open>e1\<close> leaves the empty graph empty; on
  the graph with the older copies it replaces the metadata of that element only and the
  update is relayed.
\<close>

theorem stale_update_dropped_witness:
  "OnMessage Ref 7 (graph_msg ''NodeUpdated'' (Some (render_Node n2))) world0 = Inr world0
   \<and> OnMessage Ref 7 (graph_msg ''NodeUpdated'' (Some (render_Node n2))) world_stale =
       Inr (world_stale\<lparr>Graph := (Graph world_stale)\<lparr>nodes := [n1, n2]\<rparr>,
              broadcast := [graph_msg ''NodeUpdated'' (Some (render_Node n2))]\<rparr>)
   \<and> OnMessage Ref 7 (graph_msg ''EdgeUpdated'' (Some (render_Edge e1))) world0 = Inr world0
   \<and> OnMessage Ref 7 (graph_msg ''EdgeUpdated'' (Some (render_Edge e1))) world_stale =
       Inr (world_stale\<lparr>Graph := (Graph world_stale)\<lparr>edges := [e1]\<rparr>,
              broadcast := [graph_msg ''EdgeUpdated'' (Some (render_Edge e1))]\<rparr>)"
proof -
  note nu = stale_update_dropped[OF graph_msg_sel(1) graph_msg_sel(2) sample_parse(2),
      of "''NodeUpdated''" n2 _ 7 e1, unfolded graph_msg_sel]
  note eu = stale_update_dropped[OF graph_msg_sel(1) graph_msg_sel(2) sample_parse(3),
      of "''EdgeUpdated''" n1 _ 7 e1, unfolded graph_msg_sel]
  have 1: "GetNode Ref (Graph world0) (Node.ID n2) = None"
    and 2: "GetNode Ref (Graph world_stale) (Node.ID n2) = Some (n2\<lparr>Node.metadata := []\<rparr>)"
    and 3: "GetEdge Ref (Graph world0) (Edge.ID e1) = None"
    and 4: "GetEdge Ref (Graph world_stale) (Edge.ID e1) =
              Some (e1\<lparr>Edge.metadata := [(''State'', ''DOWN'')]\<rparr>)"
    by (simp_all add: Ref_sel sample_values)
  have 5: "graph_call Ref (SetMetadata Ref (Graph world_stale)
              (NodeE (n2\<lparr>Node.metadata := []\<rparr>)) (Node.metadata n2)) world_stale =
           world_stale\<lparr>Graph := (Graph world_stale)\<lparr>nodes := [n1, n2]\<rparr>,
              broadcast := [graph_msg ''NodeUpdated'' (Some (render_Node n2))]\<rparr>"
    by (simp add: graph_call_Ref Ref_sel expected_Ref) (simp add: sample_values)
  have 6: "graph_call Ref (SetMetadata Ref (Graph world_stale)
              (EdgeE (e1\<lparr>Edge.metadata := [(''State'', ''DOWN'')]\<rparr>)) (Edge.metadata e1))
              world_stale =
           world_stale\<lparr>Graph := (Graph world_stale)\<lparr>edges := [e1]\<rparr>,
              broadcast := [graph_msg ''EdgeUpdated'' (Some (render_Edge e1))]\<rparr>"
    by (simp add: graph_call_Ref Ref_sel expected_Ref) (simp add: sample_values)
  show ?thesis
    using nu[of world0] nu[of world_stale] eu[of world0] eu[of world_stale]
    by (simp add: sample_parse 1 2 3 4 5 6)
qed

text \<open>
  C5. A \<open>NodeDeleted\<close> (resp. \<open>EdgeDeleted\<close>) message of the graph namespace makes the
  dispatcher call \<open>DelNode\<close> (resp. \<open>DelEdge\<close>) without looking the ID up, and the
  call does not panic. If the Graph treats the deletion of an element it does not hold
  as a no-op, a message whose ID the Graph does not know changes nothing.
\<close>

theorem delete_absent_is_noop:
  assumes "WSMessage.Namespace msg = Namespace" "Obj msg = Some raw"
    "json_Unmarshal E raw = Inr j"
  shows "(Type msg = ''NodeDeleted'' \<and> Node_Decode E j = Inr n \<longrightarrow>
            OnMessage E c msg s = Inr (graph_call E (DelNode E (Graph s) n) s) \<and>
            ((\<forall>g x. GetNode E g (Node.ID x) = None \<longrightarrow> DelNode E g x = (g, []))
               \<and> GetNode E (Graph s) (Node.ID n) = None \<longrightarrow> OnMessage E c msg s = Inr s))
       \<and> (Type msg = ''EdgeDeleted'' \<and> Edge_Decode E j = Inr e \<longrightarrow>
            OnMessage E c msg s = Inr (graph_call E (DelEdge E (Graph s) e) s) \<and>
            ((\<forall>g x. GetEdge E g (Edge.ID x) = None \<longrightarrow> DelEdge E g x = (g, []))
               \<and> GetEdge E (Graph s) (Edge.ID e) = None \<longrightarrow> OnMessage E c msg s = Inr s))"
proof (intro conjI impI)
  assume a: "Type msg = ''NodeDeleted'' \<and> Node_Decode E j = Inr n"
  then have u: "UnmarshalWSMessage E msg = Inr (''NodeDeleted'', ObjNode n, None)"
    using codec_node[of msg raw E j n] assms by (simp add: node_types_def)
  show call: "OnMessage E c msg s = Inr (graph_call E (DelNode E (Graph s) n) s)"
    using u assms(1) by (simp add: OnMessage_def)
  assume "(\<forall>g x. GetNode E g (Node.ID x) = None \<longrightarrow> DelNode E g x = (g, []))
               \<and> GetNode E (Graph s) (Node.ID n) = None"
  then have "DelNode E (Graph s) n = (Graph s, [])" by blast
  with call show "OnMessage E c msg s = Inr s" by (simp add: graph_call_noop)
next
  assume a: "Type msg = ''EdgeDeleted'' \<and> Edge_Decode E j = Inr e"
  then have u: "UnmarshalWSMessage E msg = Inr (''EdgeDeleted'', ObjEdge e, None)"
    using codec_edge[of msg raw E j e] assms by (simp add: edge_types_def)
  show call: "OnMessage E c msg s = Inr (graph_call E (DelEdge E (Graph s) e) s)"
    using u assms(1) by (simp add: OnMessage_def)
  assume "(\<forall>g x. GetEdge E g (Edge.ID x) = None \<longrightarrow> DelEdge E g x = (g, []))
               \<and> GetEdge E (Graph s) (Edge.ID e) = None"
  then have "DelEdge E (Graph s) e = (Graph s, [])" by blast
  with call show "OnMessage E c msg s = Inr s" by (simp add: graph_call_noop)
qed

theorem delete_absent_is_noop_witness:
  "OnMessage Ref 7 (graph_msg ''NodeDeleted'' (Some (render_Node n1))) world0 = Inr world0
   \<and> OnMessage Ref 7 (graph_msg ''EdgeDeleted'' (Some (render_Edge e1))) world0 = Inr world0"
proof -
  note nd = delete_absent_is_noop[OF graph_msg_sel(1) graph_msg_sel(2) sample_parse(1),
      of "''NodeDeleted''" n1 7 world0 e1, unfolded graph_msg_sel]
  note ed = delete_absent_is_noop[OF graph_msg_sel(1) graph_msg_sel(2) sample_parse(3),
      of "''EdgeDeleted''" n1 7 world0 e1, unfolded graph_msg_sel]
  have 1: "GetNode Ref (Graph world0) (Node.ID n1) = None"
    and 2: "GetEdge Ref (Graph world0) (Edge.ID e1) = None"
    by (simp_all add: Ref_sel sample_values)
  show ?thesis
    using nd ed mem_del_absent 1 2 by (simp add: sample_parse graph_call_noop)
qed

text \<open>
  What the dispatcher does with an error that a decode stage returns: for a node or
  edge message of the graph namespace whose payload is present and fails the JSON parse,
  or parses and fails the decoding as a node or an edge, the dispatcher logs the error
  with the message and returns; the Graph is as before, nothing is sent and nothing is
  broadcast.
\<close>

lemma decode_error_logged:
  assumes "WSMessage.Namespace msg = Namespace" "Obj msg = Some raw"
    and "(Type msg \<in> set node_types \<union> set edge_types \<and> json_Unmarshal E raw = Inl err)
       \<or> (Type msg \<in> set node_types
            \<and> (\<exists>j. json_Unmarshal E raw = Inr j \<and> Node_Decode E j = Inl err))
       \<or> (Type msg \<in> set edge_types
            \<and> (\<exists>j. json_Unmarshal E raw = Inr j \<and> Edge_Decode E j = Inl err))"
  shows "OnMessage E c msg s = Inr (s\<lparr>logged := logged s @ [Errorf msg err]\<rparr>)"
  using assms(1) codec_error[OF assms(2,3)] by (simp add: OnMessage_def)

text \<open>A payload that is not JSON, and a JSON number sent as a node and as an edge.\<close>

lemma decode_error_logged_sample:
  "OnMessage Ref 7 (graph_msg ''NodeAdded'' (Some ''{'')) world1 =
     Inr (world1\<lparr>logged :=
            [Errorf (graph_msg ''NodeAdded'' (Some ''{'')) ''invalid character'']\<rparr>)
   \<and> OnMessage Ref 7 (graph_msg ''NodeUpdated'' (Some ''1'')) world1 =
     Inr (world1\<lparr>logged :=
            [Errorf (graph_msg ''NodeUpdated'' (Some ''1'')) ''not a node'']\<rparr>)
   \<and> OnMessage Ref 7 (graph_msg ''EdgeAdded'' (Some ''1'')) world1 =
     Inr (world1\<lparr>logged :=
            [Errorf (graph_msg ''EdgeAdded'' (Some ''1'')) ''not an edge'']\<rparr>)"
  using decode_error_logged
          [of "graph_msg ''NodeAdded'' (Some ''{'')" "''{''" Ref "''invalid character''" 7 world1]
    decode_error_logged
          [of "graph_msg ''NodeUpdated'' (Some ''1'')" "''1''" Ref "''not a node''" 7 world1]
    decode_error_logged
          [of "graph_msg ''EdgeAdded'' (Some ''1'')" "''1''" Ref "''not an edge''" 7 world1]
  by (simp add: graph_msg_sel sample_parse node_types_def edge_types_def world1_def)

text \<open>
  C6. The claim: every message of the graph namespace whose payload fails a decode stage
  is logged and dropped, the state after the call being the state before. The code does
  so for an error that \<open>json.Unmarshal\<close> or \<open>Decode\<close> returns (lemma
  \<open>decode_error_logged\<close>). It does not for a node or edge message that carries no
  payload: the codec dereferences the nil \<open>Obj\<close> before the JSON parse (server.go,
  lines 50 and 62), so for every such message, every collaborator and every state the
  dispatcher panics; it neither logs the message nor returns.
\<close>

theorem missing_payload_panics:
  assumes "WSMessage.Namespace msg = Namespace"
    "Type msg \<in> set node_types \<union> set edge_types" "Obj msg = None"
  shows "OnMessage E c msg s = Inl NilPointerDereference"
  using assms(1) codec_nil_payload[OF assms(2,3), of E] by (simp add: OnMessage_def)

text \<open>
  The failing input: a \<open>NodeAdded\<close> and an \<open>EdgeAdded\<close> message of the graph
  namespace without a payload, on the graph of \<open>n1\<close>, \<open>n2\<close> and \<open>e1\<close>.
\<close>

theorem missing_payload_panics_witness:
  "WSMessage.Namespace (graph_msg ''NodeAdded'' None) = Namespace
   \<and> Type (graph_msg ''NodeAdded'' None) \<in> set node_types \<union> set edge_types
   \<and> Obj (graph_msg ''NodeAdded'' None) = None
   \<and> OnMessage Ref 7 (graph_msg ''NodeAdded'' None) world1 = Inl NilPointerDereference
   \<and> Type (graph_msg ''EdgeAdded'' None) \<in> set node_types \<union> set edge_types
   \<and> OnMessage Ref 7 (graph_msg ''EdgeAdded'' None) world1 = Inl NilPointerDereference"
  using missing_payload_panics[of "graph_msg ''NodeAdded'' None" Ref 7 world1]
    missing_payload_panics[of "graph_msg ''EdgeAdded'' None" Ref 7 world1]
  by (simp add: graph_msg_sel node_types_def edge_types_def)

text \<open>
  C7. A message whose namespace is not the graph namespace makes the dispatcher return at
  once, whatever its type and payload: the Graph is not changed, nothing is sent,
  broadcast or logged.
\<close>

theorem other_namespace_ignored:
  "WSMessage.Namespace msg \<noteq> Namespace \<Longrightarrow> OnMessage E c msg s = Inr s"
  by (simp add: OnMessage_def)

theorem other_namespace_ignored_witness:
  "WSMessage.Namespace flow_add \<noteq> Namespace \<and> OnMessage Ref 7 flow_add world1 = Inr world1"
  using other_namespace_ignored[of flow_add Ref 7 world1]
  by (simp add: flow_add_def Namespace_def)

text \<open>
  C8. A message of the graph namespace whose type is none of the eight types that the
  codec decodes (\<open>SyncRequest\<close>, the four node types, the three edge types) gets the
  empty tag and a nil error from the codec, and the dispatcher changes nothing, sends
  nothing and logs nothing. The ninth type of the protocol, \<open>SyncReply\<close>, is among the
  types so ignored.
\<close>

theorem unknown_type_ignored:
  assumes "WSMessage.Namespace msg = Namespace"
    "Type msg \<noteq> ''SyncRequest''" "Type msg \<notin> set node_types" "Type msg \<notin> set edge_types"
  shows "UnmarshalWSMessage E msg = Inr ('''', ObjMsg msg, None)
         \<and> OnMessage E c msg s = Inr s"
  using assms by (simp add: OnMessage_def codec_unknown)

theorem unknown_type_ignored_witness:
  "WSMessage.Namespace (graph_msg ''Ping'' None) = Namespace
   \<and> Type (graph_msg ''Ping'' None) \<noteq> ''SyncRequest''
   \<and> Type (graph_msg ''Ping'' None) \<notin> set node_types
   \<and> Type (graph_msg ''Ping'' None) \<notin> set edge_types
   \<and> UnmarshalWSMessage Ref (graph_msg ''Ping'' None) =
       Inr ('''', ObjMsg (graph_msg ''Ping'' None), None)
   \<and> OnMessage Ref 7 (graph_msg ''Ping'' None) world1 = Inr world1"
  using unknown_type_ignored[of "graph_msg ''Ping'' None" Ref 7 world1]
  by (simp add: graph_msg_def node_types_def edge_types_def)

text \<open>
  C9, as stated: the codec yields no event and no error for every envelope outside the
  graph namespace. The codec does not read the namespace: in the namespace \<open>Flow\<close> it
  decodes a \<open>NodeAdded\<close> envelope to a node event and a \<open>SyncRequest\<close> envelope to a
  \<open>SyncRequest\<close> event.
\<close>

theorem codec_decodes_outside_namespace:
  "WSMessage.Namespace flow_add \<noteq> Namespace
   \<and> UnmarshalWSMessage Ref flow_add = Inr (''NodeAdded'', ObjNode n1, None)
   \<and> WSMessage.Namespace flow_sync \<noteq> Namespace
   \<and> UnmarshalWSMessage Ref flow_sync = Inr (''SyncRequest'', ObjMsg flow_sync, None)"
proof -
  have "UnmarshalWSMessage Ref flow_add = Inr (''NodeAdded'', ObjNode n1, None)"
    using codec_node[of flow_add "render_Node n1" Ref "PNode n1" n1]
    by (simp add: flow_add_def sample_parse node_types_def)
  moreover
  have "UnmarshalWSMessage Ref flow_sync = Inr (''SyncRequest'', ObjMsg flow_sync, None)"
    using codec_sync[of flow_sync Ref] by (simp add: flow_sync_def)
  ultimately show ?thesis
    by (simp add: flow_add_def flow_sync_def Namespace_def)
qed

text \<open>
  C9, amended. The codec yields no event and no error for every envelope of a type it
  does not decode, in any namespace. It does not read the namespace: an envelope moved
  to another namespace gets the same tag, the same decoded element and the same error.
  It is the dispatcher that ignores an envelope outside the graph namespace, before it
  calls the codec.
\<close>

theorem codec_ignores_namespace:
  "(Type msg \<noteq> ''SyncRequest'' \<and> Type msg \<notin> set node_types \<and> Type msg \<notin> set edge_types \<longrightarrow>
      UnmarshalWSMessage E msg = Inr ('''', ObjMsg msg, None))
   \<and> UnmarshalWSMessage E (msg\<lparr>WSMessage.Namespace := ns\<rparr>) =
       map_sum id (\<lambda>(t, obj, err). (t, in_namespace ns obj, err)) (UnmarshalWSMessage E msg)
   \<and> (WSMessage.Namespace msg \<noteq> Namespace \<longrightarrow> OnMessage E c msg s = Inr s)"
  using codec_unknown[of msg E] codec_namespace_update[of E ns msg]
  by (simp add: OnMessage_def)

theorem codec_ignores_namespace_witness:
  "Type flow_ping \<noteq> ''SyncRequest'' \<and> Type flow_ping \<notin> set node_types
   \<and> Type flow_ping \<notin> set edge_types
   \<and> UnmarshalWSMessage Ref flow_ping = Inr ('''', ObjMsg flow_ping, None)
   \<and> WSMessage.Namespace flow_ping \<noteq> Namespace
   \<and> OnMessage Ref 7 flow_ping world1 = Inr world1
   \<and> UnmarshalWSMessage Ref
        ((graph_msg ''NodeAdded'' (Some (render_Node n1)))\<lparr>WSMessage.Namespace := ''Flow''\<rparr>) =
      Inr (''NodeAdded'', ObjNode n1, None)"
proof -
  have a: "UnmarshalWSMessage Ref (graph_msg ''NodeAdded'' (Some (render_Node n1))) =
      Inr (''NodeAdded'', ObjNode n1, None)"
    using codec_node[of "graph_msg ''NodeAdded'' (Some (render_Node n1))" _ Ref "PNode n1" n1]
    by (simp add: graph_msg_sel sample_parse node_types_def)
  show ?thesis
    using codec_ignores_namespace[of flow_ping Ref "''Flow''" 7 world1]
      codec_ignores_namespace
        [of "graph_msg ''NodeAdded'' (Some (render_Node n1))" Ref "''Flow''" 7 world1] a
    by (simp add: flow_ping_def node_types_def edge_types_def Namespace_def)
qed

text \<open>
  C10. Whenever the codec returns, its tag and its value agree: with a non-nil error the
  tag is empty; with a nil error and a node tag the value is a decoded node; with a nil
  error and an edge tag the value is a decoded edge. Hence no type assertion of the
  dispatcher panics.
\<close>

theorem codec_tag_value_consistent:
  "(UnmarshalWSMessage E msg = Inr (t, obj, err) \<longrightarrow>
      (err \<noteq> None \<longrightarrow> t = '''')
    \<and> (err = None \<and> t \<in> set node_types \<longrightarrow> (\<exists>n. obj = ObjNode n))
    \<and> (err = None \<and> t \<in> set edge_types \<longrightarrow> (\<exists>e. obj = ObjEdge e)))
   \<and> OnMessage E c msg s \<noteq> Inl InterfaceConversion"
  using codec_shape[of E msg t obj err] dispatch_no_conversion_panic[of E c msg s] by blast

theorem codec_tag_value_consistent_witness:
  "UnmarshalWSMessage Ref (graph_msg ''NodeAdded'' (Some (render_Node n1))) =
      Inr (''NodeAdded'', ObjNode n1, None)
   \<and> ''NodeAdded'' \<in> set node_types
   \<and> UnmarshalWSMessage Ref (graph_msg ''EdgeAdded'' (Some (render_Edge e1))) =
      Inr (''EdgeAdded'', ObjEdge e1, None)
   \<and> ''EdgeAdded'' \<in> set edge_types
   \<and> UnmarshalWSMessage Ref (graph_msg ''NodeAdded'' (Some ''1'')) =
      Inr ('''', ObjMsg (graph_msg ''NodeAdded'' (Some ''1'')), Some ''not a node'')
   \<and> OnMessage Ref 7 (graph_msg ''NodeAdded'' (Some (render_Node n1))) world0
        \<noteq> Inl InterfaceConversion"
proof -
  have a: "UnmarshalWSMessage Ref (graph_msg ''NodeAdded'' (Some (render_Node n1))) =
      Inr (''NodeAdded'', ObjNode n1, None)"
    using codec_node[of "graph_msg ''NodeAdded'' (Some (render_Node n1))" _ Ref "PNode n1" n1]
    by (simp add: graph_msg_sel sample_parse node_types_def)
  have b: "UnmarshalWSMessage Ref (graph_msg ''EdgeAdded'' (Some (render_Edge e1))) =
      Inr (''EdgeAdded'', ObjEdge e1, None)"
    using codec_edge[of "graph_msg ''EdgeAdded'' (Some (render_Edge e1))" _ Ref "PEdge e1" e1]
    by (simp add: graph_msg_sel sample_parse edge_types_def)
  have c: "UnmarshalWSMessage Ref (graph_msg ''NodeAdded'' (Some ''1'')) =
      Inr ('''', ObjMsg (graph_msg ''NodeAdded'' (Some ''1'')), Some ''not a node'')"
    using codec_error[of "graph_msg ''NodeAdded'' (Some ''1'')" "''1''" Ref "''not a node''"]
    by (simp add: graph_msg_sel sample_parse node_types_def)
  show ?thesis
    using codec_tag_value_consistent
            [of Ref "graph_msg ''NodeAdded'' (Some (render_Node n1))" "''NodeAdded''"
                "ObjNode n1" None 7 world0]
      codec_tag_value_consistent
            [of Ref "graph_msg ''EdgeAdded'' (Some (render_Edge e1))" "''EdgeAdded''"
                "ObjEdge e1" None 7 world0]
      codec_tag_value_consistent
            [of Ref "graph_msg ''NodeAdded'' (Some ''1'')" "''''"
                "ObjMsg (graph_msg ''NodeAdded'' (Some ''1''))" "Some ''not a node''" 7 world0]
      a b c
    by (simp add: node_types_def edge_types_def)
qed

end
